theory Spec2Isabelle
  imports Main
begin

section \<open>The collection compiler of directus-data-model (src/collection.ts)\<close>

text \<open>
  The TypeScript class \<open>Collection\<close> accumulates field descriptors and collection
  metadata through fluent calls and serialises them with \<open>render()\<close>. The embedding
  passes the state explicitly: a method that returns \<open>this\<close> maps a collection to the
  mutated collection, a method that returns the new \<open>Field\<close> object maps a collection
  to a handle on that object together with the mutated collection.

  An optional property or an omitted argument (\<open>undefined\<close>) is \<open>None\<close>; a value of
  type \<open>T | null\<close> is a \<open>T nullable\<close>, so an optional property of type
  \<open>string | null\<close> has the three states unset, null and value.
\<close>

subsection \<open>Values\<close>

datatype 'a nullable = Null | Value 'a

datatype error = TypeError

text \<open>A default parameter value replaces an omitted (\<open>undefined\<close>) argument only.\<close>

fun default_arg :: "'a \<Rightarrow> 'a option \<Rightarrow> 'a" where
  "default_arg d None = d"
| "default_arg d (Some v) = v"

text \<open>Option objects such as \<open>{ template }\<close> and \<open>{ relative: true }\<close>.\<close>

datatype json_value = JString string | JBool bool

type_synonym options_object = "(string \<times> json_value) list"

subsection \<open>Collection metadata (lines 5-25)\<close>

datatype CollectionAccountability = All | Activity

text \<open>
  \<open>CollectionSchema\<close> is the object type \<open>{}\<close>: it names no property and admits any
  object, and the collection only stores and returns the one it is given. An object of
  that type is its list of properties; the literal \<open>{}\<close> is the empty list.
\<close>

type_synonym CollectionSchema = "(string \<times> json_value) list"

record Translation =
  tr_language :: string
  tr_translation :: string
  tr_singular :: "string option"
  tr_plural :: "string option"

record CollectionMeta =
  sort_field :: "string option"
  archive_field :: "string option"
  archive_value :: "string nullable option"
  unarchive_value :: "string nullable option"
  archive_app_filter :: "bool option"
  accountability :: "CollectionAccountability nullable option"
  hidden :: "bool option"
  singleton :: "bool option"
  "translations" :: "Translation list option"

text \<open>The object literal \<open>{}\<close> as a \<open>CollectionMeta\<close>: every property unset.\<close>

definition empty_CollectionMeta :: CollectionMeta where
  "empty_CollectionMeta =
     \<lparr>sort_field = None, archive_field = None, archive_value = None,
      unarchive_value = None, archive_app_filter = None, accountability = None,
      hidden = None, singleton = None, translations = None\<rparr>"

subsection \<open>Field descriptors and the registry (imported from ./field and ./builder)\<close>

text \<open>
  Modelled from the spec: the types \<open>FieldSchema\<close>, \<open>FieldMeta\<close> and
  \<open>FieldSpecial\<close> are declared in field.ts, which is not among the sources. The spec
  (section 3) lists the storage constraints max_length, numeric_precision,
  numeric_scale, nullable, primary-key flag and autoincrement flag, and as metadata
  the interface name and options, the display name and options and the ordered
  sequence of special tags. Numbers are only stored, never computed with.
\<close>

type_synonym FieldSpecial = string

record FieldSchema =
  max_length :: "int option"
  numeric_precision :: "int option"
  numeric_scale :: "int option"
  nullable :: "bool option"
  primary_key :: "bool option"
  autoincrement :: "bool option"

record FieldMeta =
  interface :: "string option"
  options :: "options_object option"
  display :: "string option"
  display_options :: "options_object option"
  special :: "FieldSpecial list option"

text \<open>
  Modelled from the spec: the object literal \<open>{}\<close> as a \<open>FieldSchema\<close> and as a
  \<open>FieldMeta\<close>, every property unset.
\<close>

definition empty_FieldSchema :: FieldSchema where
  "empty_FieldSchema =
     \<lparr>max_length = None, numeric_precision = None, numeric_scale = None,
      nullable = None, primary_key = None, autoincrement = None\<rparr>"

definition empty_FieldMeta :: FieldMeta where
  "empty_FieldMeta =
     \<lparr>interface = None, options = None, display = None, display_options = None,
      special = None\<rparr>"

text \<open>
  Modelled from the spec: the class \<open>Field\<close> of field.ts. A field descriptor has a
  name, a type fixed at construction, a schema and a meta (section 3). Its
  back-reference to the owning collection is used only to pass the collection's name
  to the registry, so the descriptor does not store it: a field is addressed through
  its owner.
\<close>

record Field =
  f_name :: string
  f_type :: string
  f_schema :: FieldSchema
  f_meta :: FieldMeta

text \<open>
  Modelled from the spec: the constructor of \<open>Field\<close>, called at line 107 with the
  optional schema and meta of \<open>Collection.field\<close>; an omitted schema or meta is the
  empty object, as in the constructor of \<open>Collection\<close>.
\<close>

definition new_Field :: "string \<Rightarrow> string \<Rightarrow> FieldSchema option \<Rightarrow> FieldMeta option \<Rightarrow> Field" where
  "new_Field nm ty schema0 meta0 =
     \<lparr>f_name = nm, f_type = ty,
      f_schema = (case schema0 of None \<Rightarrow> empty_FieldSchema | Some s \<Rightarrow> s),
      f_meta = (case meta0 of None \<Rightarrow> empty_FieldMeta | Some m \<Rightarrow> m)\<rparr>"

text \<open>
  Modelled from the spec: a relation is a directed edge from (source collection,
  source field) to a related collection with an \<open>on_delete\<close> policy; it is owned by
  the registry (the class \<open>Builder\<close> of builder.ts, not among the sources), which
  keeps the registrations as an append-only log without deduplication (sections 3,
  5 and 6).
\<close>

record Relation =
  rel_collection :: string
  rel_field :: string
  rel_related :: "string nullable"
  rel_on_delete :: "string option"

record Builder =
  relations :: "Relation list"

text \<open>
  Modelled from the spec: \<open>Builder.relation(collection, field, related_collection)\<close>,
  the capability \<open>registerRelation\<close> of section 6: it appends one registration, whose
  delete policy is not yet set.
\<close>

definition Builder_relation :: "string \<Rightarrow> string \<Rightarrow> string nullable \<Rightarrow> Builder \<Rightarrow> Builder" where
  "Builder_relation collection field related b =
     b\<lparr>relations := relations b @
        [\<lparr>rel_collection = collection, rel_field = field, rel_related = related,
          rel_on_delete = None\<rparr>]\<rparr>"

subsection \<open>The class Collection (lines 45-58)\<close>

text \<open>
  The property \<open>fields\<close> is the record field \<open>the_fields\<close> (the record package
  keeps the name \<open>fields\<close> for itself). The builder is the registry the collection
  was created by; its state travels with the collection.
\<close>

record Collection =
  builder :: Builder
  name :: string
  schema :: CollectionSchema
  meta :: CollectionMeta
  the_fields :: "Field list"

definition new_Collection ::
  "Builder \<Rightarrow> string \<Rightarrow> CollectionSchema option \<Rightarrow> CollectionMeta option \<Rightarrow> Field list option \<Rightarrow> Collection" where
  "new_Collection b nm schema0 meta0 fields0 =
     \<lparr>builder = b, name = nm,
      schema = (case schema0 of None \<Rightarrow> [] | Some s \<Rightarrow> s),
      meta = (case meta0 of None \<Rightarrow> empty_CollectionMeta | Some m \<Rightarrow> m),
      the_fields = (case fields0 of None \<Rightarrow> [] | Some fs \<Rightarrow> fs)\<rparr>"

definition findField :: "string \<Rightarrow> Collection \<Rightarrow> Field option" where
  "findField field c = find (\<lambda>f. f_name f = field) (the_fields c)"

subsection \<open>Collection-level setters (lines 64-104, 112-115)\<close>

definition Collection_hidden :: "bool option \<Rightarrow> Collection \<Rightarrow> Collection" where
  "Collection_hidden value0 c =
     (let v = default_arg True value0 in c\<lparr>meta := (meta c)\<lparr>hidden := Some v\<rparr>\<rparr>)"

definition Collection_singleton :: "bool option \<Rightarrow> Collection \<Rightarrow> Collection" where
  "Collection_singleton value0 c =
     (let v = default_arg True value0 in c\<lparr>meta := (meta c)\<lparr>singleton := Some v\<rparr>\<rparr>)"

definition Collection_sort :: "string \<Rightarrow> Collection \<Rightarrow> Collection" where
  "Collection_sort field c = c\<lparr>meta := (meta c)\<lparr>sort_field := Some field\<rparr>\<rparr>"

definition Collection_archive ::
  "string \<Rightarrow> string nullable option \<Rightarrow> string nullable option \<Rightarrow> bool option \<Rightarrow> Collection \<Rightarrow> Collection" where
  "Collection_archive field archive0 unarchive0 filter0 c =
     (let archive = default_arg (Value ''archived'') archive0;
          unarchive = default_arg (Value ''draft'') unarchive0;
          filter = default_arg True filter0
      in c\<lparr>meta := (meta c)\<lparr>archive_field := Some field,
                               archive_value := Some archive,
                               unarchive_value := Some unarchive,
                               archive_app_filter := Some filter\<rparr>\<rparr>)"

definition Collection_accountability ::
  "CollectionAccountability nullable \<Rightarrow> Collection \<Rightarrow> Collection" where
  "Collection_accountability v c = c\<lparr>meta := (meta c)\<lparr>accountability := Some v\<rparr>\<rparr>"

text \<open>
  \<open>Array.prototype.push\<close> called through a property that is \<open>undefined\<close> throws a
  TypeError; on an array it appends.
\<close>

definition array_push :: "'a list option \<Rightarrow> 'a \<Rightarrow> error + 'a list" where
  "array_push arr x = (case arr of None \<Rightarrow> Inl TypeError | Some xs \<Rightarrow> Inr (xs @ [x]))"

definition isArray :: "'a list option \<Rightarrow> bool" where
  "isArray arr = (case arr of None \<Rightarrow> False | Some xs \<Rightarrow> True)"

definition Collection_translation ::
  "string \<Rightarrow> string \<Rightarrow> string option \<Rightarrow> string option \<Rightarrow> Collection \<Rightarrow> error + Collection" where
  "Collection_translation language translation singular plural c =
     (let m = (if \<not> isArray (translations (meta c))
               then (meta c)\<lparr>translations := Some []\<rparr> else meta c)
      in case array_push (translations m)
                \<lparr>tr_language = language, tr_translation = translation,
                 tr_singular = singular, tr_plural = plural\<rparr> of
           Inl e \<Rightarrow> Inl e
         | Inr ts \<Rightarrow> Inr (c\<lparr>meta := m\<lparr>translations := Some ts\<rparr>\<rparr>))"

definition Collection_relation :: "string \<Rightarrow> string nullable option \<Rightarrow> Collection \<Rightarrow> Collection" where
  "Collection_relation field related0 c =
     (let related_collection = default_arg Null related0
      in c\<lparr>builder := Builder_relation (name c) field related_collection (builder c)\<rparr>)"

subsection \<open>Field objects held by a collection\<close>

text \<open>
  \<open>Collection.field\<close> pushes the new \<open>Field\<close> object onto \<open>this.fields\<close> and returns
  it; the caller then mutates that same object through its fluent methods. A
  reference to a field is its position in \<open>the_fields\<close>; a \<open>FieldRef\<close> is such a
  reference together with the state it is used in, so that a chain
  \<open>this.field(..).notNullable().pk()\<close> is the composition of its calls.
\<close>

type_synonym FieldRef = "nat \<times> Collection"

definition Collection_field ::
  "string \<Rightarrow> string \<Rightarrow> FieldSchema option \<Rightarrow> FieldMeta option \<Rightarrow> Collection \<Rightarrow> FieldRef" where
  "Collection_field nm ty schema0 meta0 c =
     (let field = new_Field nm ty schema0 meta0
      in (length (the_fields c), c\<lparr>the_fields := the_fields c @ [field]\<rparr>))"

text \<open>
  A mutation of the referenced field object. Every reference the methods below are
  given comes from \<open>Collection_field\<close> and is in range; a reference to no object
  (which the source cannot form) changes nothing.
\<close>

definition update_field :: "(Field \<Rightarrow> Field) \<Rightarrow> FieldRef \<Rightarrow> FieldRef" where
  "update_field g r =
     (case r of (h, c) \<Rightarrow>
        (h, if h < length (the_fields c)
            then c\<lparr>the_fields := (the_fields c)[h := g (the_fields c ! h)]\<rparr>
            else c))"

text \<open>
  The chainable setters of \<open>Field\<close> follow; field.ts is not among the sources, so
  each is taken from section 4.2 of the spec, where every setter mutates the
  descriptor and returns the field itself.
\<close>

text \<open>
  Modelled from the spec: \<open>Field.notNullable()\<close>; section 8 names the flag it sets,
  \<open>schema.nullable=false\<close>.
\<close>

definition Field_notNullable :: "FieldRef \<Rightarrow> FieldRef" where
  "Field_notNullable = update_field (\<lambda>f. f\<lparr>f_schema := (f_schema f)\<lparr>nullable := Some False\<rparr>\<rparr>)"

text \<open>
  Modelled from the spec: \<open>Field.pk()\<close>; section 8 names the flag it sets,
  \<open>schema.primary_key=true\<close>.
\<close>

definition Field_pk :: "FieldRef \<Rightarrow> FieldRef" where
  "Field_pk = update_field (\<lambda>f. f\<lparr>f_schema := (f_schema f)\<lparr>primary_key := Some True\<rparr>\<rparr>)"

text \<open>
  Modelled from the spec: \<open>Field.autoincrement()\<close>; section 8 names the flag it sets,
  \<open>schema.autoincrement=true\<close>.
\<close>

definition Field_autoincrement :: "FieldRef \<Rightarrow> FieldRef" where
  "Field_autoincrement =
     update_field (\<lambda>f. f\<lparr>f_schema := (f_schema f)\<lparr>autoincrement := Some True\<rparr>\<rparr>)"

text \<open>
  Modelled from the spec: \<open>Field.special(...kinds)\<close>, an append to the special tags,
  which are stored as an ordered sequence in declaration order (sections 3 and 4.2);
  the sequence is unset until the first tag is added.
\<close>

definition Field_special :: "FieldSpecial list \<Rightarrow> FieldRef \<Rightarrow> FieldRef" where
  "Field_special kinds =
     update_field (\<lambda>f. f\<lparr>f_meta := (f_meta f)\<lparr>special :=
        Some ((case special (f_meta f) of None \<Rightarrow> [] | Some s \<Rightarrow> s) @ kinds)\<rparr>\<rparr>)"

text \<open>
  Modelled from the spec: \<open>Field.interface(name, options?)\<close> stores the interface name
  and the interface options.
\<close>

definition Field_interface :: "string \<Rightarrow> options_object option \<Rightarrow> FieldRef \<Rightarrow> FieldRef" where
  "Field_interface n opts =
     update_field (\<lambda>f. f\<lparr>f_meta := (f_meta f)\<lparr>interface := Some n, options := opts\<rparr>\<rparr>)"

text \<open>
  Modelled from the spec: \<open>Field.display(name, options?)\<close> stores the display name and
  the display options.
\<close>

definition Field_display :: "string \<Rightarrow> options_object option \<Rightarrow> FieldRef \<Rightarrow> FieldRef" where
  "Field_display n opts =
     update_field (\<lambda>f. f\<lparr>f_meta := (f_meta f)\<lparr>display := Some n, display_options := opts\<rparr>\<rparr>)"

text \<open>
  Modelled from the spec: the delete policy of a relation is kept with the relation
  in the registry (section 3). Setting it for a collection and field changes the
  latest registration of that collection and field in the log, searched from the
  end; \<open>set_policy\<close> works on the reversed log.
\<close>

fun set_policy :: "string \<Rightarrow> string \<Rightarrow> string \<Rightarrow> Relation list \<Rightarrow> Relation list" where
  "set_policy collection field policy [] = []"
| "set_policy collection field policy (r # rs) =
     (if rel_collection r = collection \<and> rel_field r = field
      then r\<lparr>rel_on_delete := Some policy\<rparr> # rs
      else r # set_policy collection field policy rs)"

definition Builder_on_delete :: "string \<Rightarrow> string \<Rightarrow> string \<Rightarrow> Builder \<Rightarrow> Builder" where
  "Builder_on_delete collection field policy b =
     b\<lparr>relations := rev (set_policy collection field policy (rev (relations b)))\<rparr>"

text \<open>
  Modelled from the spec: \<open>Field.relation(relatedCollection)\<close> (section 4.2) registers
  (owning collection, field name, related collection) with the registry and returns
  the field itself; the relation is not stored on the field.
\<close>

definition Field_relation :: "string \<Rightarrow> FieldRef \<Rightarrow> FieldRef" where
  "Field_relation related r =
     (case r of (h, c) \<Rightarrow>
        (h, if h < length (the_fields c)
            then c\<lparr>builder := Builder_relation (name c) (f_name (the_fields c ! h))
                                (Value related) (builder c)\<rparr>
            else c))"

text \<open>
  Modelled from the spec: \<open>Field.on_delete(policy)\<close> (section 4.2) sets the delete
  policy of the field's relation in the registry and returns the field itself.
\<close>

definition Field_on_delete :: "string \<Rightarrow> FieldRef \<Rightarrow> FieldRef" where
  "Field_on_delete policy r =
     (case r of (h, c) \<Rightarrow>
        (h, if h < length (the_fields c)
            then c\<lparr>builder := Builder_on_delete (name c) (f_name (the_fields c ! h))
                                policy (builder c)\<rparr>
            else c))"

subsection \<open>date_special (lines 27-43)\<close>

definition date_special :: "FieldRef \<Rightarrow> bool \<Rightarrow> bool \<Rightarrow> FieldRef" where
  "date_special field on_create on_updated =
     (let special0 = [];
          special1 = (if on_create then special0 @ [''date-created''] else special0);
          special2 = (if on_updated then special1 @ [''date-updated''] else special1)
      in if length special2 \<noteq> 0 then Field_special special2 field else field)"

subsection \<open>Field-declaring helpers (lines 117-303)\<close>

datatype PrimaryKeyType = PK_integer | PK_uuid | PK_string

fun PrimaryKeyType_str :: "PrimaryKeyType \<Rightarrow> string" where
  "PrimaryKeyType_str PK_integer = ''integer''"
| "PrimaryKeyType_str PK_uuid = ''uuid''"
| "PrimaryKeyType_str PK_string = ''string''"

definition Collection_primary_key :: "string \<Rightarrow> PrimaryKeyType \<Rightarrow> Collection \<Rightarrow> FieldRef" where
  "Collection_primary_key nm ty c =
     (let field = Field_pk (Field_notNullable
                    (Collection_field nm (PrimaryKeyType_str ty) None None c))
      in if ty = PK_integer then Field_autoincrement field
         else if ty = PK_uuid then Field_special [''uuid''] field
         else field)"

text \<open>The argument types \<open>"uuid" | "user" | "role"\<close> and \<open>"user" | "role"\<close> of \<open>uuid\<close>.\<close>

datatype OnCreate = OC_uuid | OC_user | OC_role

datatype OnUpdate = OU_user | OU_role

text \<open>The two lookup objects \<open>options\<close> of \<open>uuid\<close> (lines 236-240 and 246-249).\<close>

fun on_create_options :: "OnCreate \<Rightarrow> FieldSpecial" where
  "on_create_options OC_uuid = ''uuid''"
| "on_create_options OC_user = ''user-created''"
| "on_create_options OC_role = ''role-created''"

fun on_update_options :: "OnUpdate \<Rightarrow> FieldSpecial" where
  "on_update_options OU_user = ''user-updated''"
| "on_update_options OU_role = ''role-updated''"

definition Collection_uuid ::
  "string \<Rightarrow> OnCreate nullable option \<Rightarrow> OnUpdate nullable option \<Rightarrow> Collection \<Rightarrow> FieldRef" where
  "Collection_uuid nm on_create0 on_update0 c =
     (let on_create = default_arg Null on_create0;
          on_update = default_arg Null on_update0;
          field = Collection_field nm ''uuid'' None None c;
          special0 = [];
          special1 = (case on_create of
                        Null \<Rightarrow> special0
                      | Value k \<Rightarrow> special0 @ [on_create_options k]);
          special2 = (case on_update of
                        Null \<Rightarrow> special1
                      | Value k \<Rightarrow> special1 @ [on_update_options k])
      in if length special2 \<noteq> 0 then Field_special special2 field else field)"

definition user_template :: string where
  "user_template = ''{{avatar.$thumbnail}} {{first_name}} {{last_name}}''"

definition role_template :: string where
  "role_template = ''{{name}}''"

definition Collection_user_created :: "string \<Rightarrow> string option \<Rightarrow> Collection \<Rightarrow> FieldRef" where
  "Collection_user_created nm template0 c =
     (let template = default_arg user_template template0;
          field = Field_display ''user'' None
                    (Field_interface ''select-dropdown-m2o'' (Some [(''template'', JString template)])
                      (Collection_uuid nm (Some (Value OC_user)) None c));
          related = Field_on_delete ''SET NULL'' (Field_relation ''directus_users'' field)
      in (fst field, snd related))"

definition Collection_role_created :: "string \<Rightarrow> string option \<Rightarrow> Collection \<Rightarrow> FieldRef" where
  "Collection_role_created nm template0 c =
     (let template = default_arg role_template template0;
          field = Field_display ''related-values'' (Some [(''template'', JString template)])
                    (Field_interface ''select-dropdown-m2o'' (Some [(''template'', JString template)])
                      (Collection_uuid nm (Some (Value OC_role)) None c));
          related = Field_on_delete ''SET NULL'' (Field_relation ''directus_roles'' field)
      in (fst field, snd related))"

definition Collection_user_updated :: "string \<Rightarrow> string option \<Rightarrow> Collection \<Rightarrow> FieldRef" where
  "Collection_user_updated nm template0 c =
     (let template = default_arg user_template template0;
          field = Field_display ''user'' None
                    (Field_interface ''select-dropdown-m2o'' (Some [(''template'', JString template)])
                      (Collection_uuid nm (Some Null) (Some (Value OU_user)) c));
          related = Field_on_delete ''SET NULL'' (Field_relation ''directus_users'' field)
      in (fst field, snd related))"

definition Collection_role_updated :: "string \<Rightarrow> string option \<Rightarrow> Collection \<Rightarrow> FieldRef" where
  "Collection_role_updated nm template0 c =
     (let template = default_arg role_template template0;
          field = Field_display ''related-values'' (Some [(''template'', JString template)])
                    (Field_interface ''select-dropdown-m2o'' (Some [(''template'', JString template)])
                      (Collection_uuid nm (Some Null) (Some (Value OU_role)) c));
          related = Field_on_delete ''SET NULL'' (Field_relation ''directus_roles'' field)
      in (fst field, snd related))"

definition Collection_string :: "string \<Rightarrow> int option \<Rightarrow> Collection \<Rightarrow> FieldRef" where
  "Collection_string nm max_length0 c =
     (let ml = default_arg 255 max_length0
      in Collection_field nm ''string'' (Some (empty_FieldSchema\<lparr>max_length := Some ml\<rparr>)) None c)"

definition Collection_text :: "string \<Rightarrow> Collection \<Rightarrow> FieldRef" where
  "Collection_text nm c = Collection_field nm ''text'' None None c"

definition Collection_boolean :: "string \<Rightarrow> Collection \<Rightarrow> FieldRef" where
  "Collection_boolean nm c = Field_special [''boolean''] (Collection_field nm ''boolean'' None None c)"

definition Collection_integer :: "string \<Rightarrow> int option \<Rightarrow> Collection \<Rightarrow> FieldRef" where
  "Collection_integer nm precision0 c =
     (let precision = default_arg 32 precision0
      in Collection_field nm ''integer''
           (Some (empty_FieldSchema\<lparr>numeric_precision := Some precision\<rparr>)) None c)"

definition Collection_bigInteger :: "string \<Rightarrow> int option \<Rightarrow> Collection \<Rightarrow> FieldRef" where
  "Collection_bigInteger nm precision0 c =
     (let precision = default_arg 64 precision0
      in Collection_field nm ''bigInteger''
           (Some (empty_FieldSchema\<lparr>numeric_precision := Some precision\<rparr>)) None c)"

definition Collection_float :: "string \<Rightarrow> int option \<Rightarrow> int option \<Rightarrow> Collection \<Rightarrow> FieldRef" where
  "Collection_float nm precision0 scale0 c =
     (let precision = default_arg 10 precision0; scale = default_arg 5 scale0
      in Collection_field nm ''float''
           (Some (empty_FieldSchema\<lparr>numeric_precision := Some precision,
                                    numeric_scale := Some scale\<rparr>)) None c)"

definition Collection_decimal :: "string \<Rightarrow> int option \<Rightarrow> int option \<Rightarrow> Collection \<Rightarrow> FieldRef" where
  "Collection_decimal nm precision0 scale0 c =
     (let precision = default_arg 10 precision0; scale = default_arg 5 scale0
      in Collection_field nm ''decimal''
           (Some (empty_FieldSchema\<lparr>numeric_precision := Some precision,
                                    numeric_scale := Some scale\<rparr>)) None c)"

definition Collection_datetime :: "string \<Rightarrow> bool option \<Rightarrow> bool option \<Rightarrow> Collection \<Rightarrow> FieldRef" where
  "Collection_datetime nm on_create0 on_updated0 c =
     date_special (Collection_field nm ''datetime'' None None c)
       (default_arg False on_create0) (default_arg False on_updated0)"

definition Collection_timestamp :: "string \<Rightarrow> bool option \<Rightarrow> bool option \<Rightarrow> Collection \<Rightarrow> FieldRef" where
  "Collection_timestamp nm on_create0 on_updated0 c =
     date_special (Collection_field nm ''timestamp'' None None c)
       (default_arg False on_create0) (default_arg False on_updated0)"

definition Collection_date :: "string \<Rightarrow> bool option \<Rightarrow> bool option \<Rightarrow> Collection \<Rightarrow> FieldRef" where
  "Collection_date nm on_create0 on_updated0 c =
     date_special (Collection_field nm ''date'' None None c)
       (default_arg False on_create0) (default_arg False on_updated0)"

definition Collection_time :: "string \<Rightarrow> bool option \<Rightarrow> bool option \<Rightarrow> Collection \<Rightarrow> FieldRef" where
  "Collection_time nm on_create0 on_updated0 c =
     date_special (Collection_field nm ''time'' None None c)
       (default_arg False on_create0) (default_arg False on_updated0)"

definition Collection_date_created :: "string \<Rightarrow> Collection \<Rightarrow> FieldRef" where
  "Collection_date_created nm c =
     Field_display ''datetime'' (Some [(''relative'', JBool True)])
       (Field_interface ''datetime'' None (Collection_timestamp nm (Some True) None c))"

definition Collection_date_updated :: "string \<Rightarrow> Collection \<Rightarrow> FieldRef" where
  "Collection_date_updated nm c =
     Field_display ''datetime'' (Some [(''relative'', JBool True)])
       (Field_interface ''datetime'' None (Collection_timestamp nm (Some False) (Some True) c))"

definition Collection_json :: "string \<Rightarrow> Collection \<Rightarrow> FieldRef" where
  "Collection_json nm c = Field_special [''json''] (Collection_field nm ''json'' None None c)"

definition Collection_csv :: "string \<Rightarrow> Collection \<Rightarrow> FieldRef" where
  "Collection_csv nm c = Field_special [''csv''] (Collection_field nm ''csv'' None None c)"

definition Collection_hash :: "string \<Rightarrow> Collection \<Rightarrow> FieldRef" where
  "Collection_hash nm c = Field_special [''hash''] (Collection_field nm ''hash'' None None c)"

definition Collection_geometryPoint :: "string \<Rightarrow> Collection \<Rightarrow> FieldRef" where
  "Collection_geometryPoint nm c = Collection_field nm ''geometry.Point'' None None c"

definition Collection_geometryLineString :: "string \<Rightarrow> Collection \<Rightarrow> FieldRef" where
  "Collection_geometryLineString nm c = Collection_field nm ''geometry.LineString'' None None c"

definition Collection_geometryPolygon :: "string \<Rightarrow> Collection \<Rightarrow> FieldRef" where
  "Collection_geometryPolygon nm c = Collection_field nm ''geometry.Polygon'' None None c"

definition Collection_geometryMultiPoint :: "string \<Rightarrow> Collection \<Rightarrow> FieldRef" where
  "Collection_geometryMultiPoint nm c = Collection_field nm ''geometry.MultiPoint'' None None c"

definition Collection_geometryMultiLineString :: "string \<Rightarrow> Collection \<Rightarrow> FieldRef" where
  "Collection_geometryMultiLineString nm c =
     Collection_field nm ''geometry.MultiLineString'' None None c"

definition Collection_geometryMultiPolygon :: "string \<Rightarrow> Collection \<Rightarrow> FieldRef" where
  "Collection_geometryMultiPolygon nm c =
     Collection_field nm ''geometry.MultiPolygon'' None None c"

definition Collection_file :: "string \<Rightarrow> Collection \<Rightarrow> FieldRef" where
  "Collection_file nm c =
     (let field = Field_display ''file'' None
                    (Field_interface ''file'' None
                      (Field_special [''file''] (Collection_field nm ''uuid'' None None c)));
          related = Field_on_delete ''SET NULL'' (Field_relation ''directus_files'' field)
      in (fst field, snd related))"

definition Collection_image :: "string \<Rightarrow> Collection \<Rightarrow> FieldRef" where
  "Collection_image nm c =
     (let field = Field_display ''image'' None
                    (Field_interface ''file-image'' None
                      (Field_special [''file''] (Collection_field nm ''uuid'' None None c)));
          related = Field_on_delete ''SET NULL'' (Field_relation ''directus_files'' field)
      in (fst field, snd related))"

subsection \<open>render (lines 305-312)\<close>

text \<open>
  Modelled from the spec: \<open>Field.render()\<close> yields \<open>{field: name, type, schema, meta}\<close>
  (section 4.2).
\<close>

record FieldOutput =
  o_field :: string
  o_type :: string
  o_schema :: FieldSchema
  o_meta :: FieldMeta

definition Field_render :: "Field \<Rightarrow> FieldOutput" where
  "Field_render f =
     \<lparr>o_field = f_name f, o_type = f_type f, o_schema = f_schema f, o_meta = f_meta f\<rparr>"

record CollectionOutput =
  out_collection :: string
  out_schema :: CollectionSchema
  out_meta :: CollectionMeta
  out_fields :: "FieldOutput list"

definition Collection_render :: "Collection \<Rightarrow> CollectionOutput" where
  "Collection_render c =
     \<lparr>out_collection = name c, out_schema = schema c, out_meta = meta c,
      out_fields = map (\<lambda>field. Field_render field) (the_fields c)\<rparr>"

subsection \<open>Sequences of calls\<close>

text \<open>
  The field-declaring methods with their arguments, an omitted optional argument
  being \<open>None\<close>, and the dispatch of one such call on a collection.
\<close>

datatype FieldCall =
    Call_field string string "FieldSchema option" "FieldMeta option"
  | Call_primary_key string PrimaryKeyType
  | Call_user_created string "string option"
  | Call_role_created string "string option"
  | Call_user_updated string "string option"
  | Call_role_updated string "string option"
  | Call_date_created string
  | Call_date_updated string
  | Call_string string "int option"
  | Call_text string
  | Call_boolean string
  | Call_integer string "int option"
  | Call_bigInteger string "int option"
  | Call_float string "int option" "int option"
  | Call_decimal string "int option" "int option"
  | Call_datetime string "bool option" "bool option"
  | Call_timestamp string "bool option" "bool option"
  | Call_date string "bool option" "bool option"
  | Call_time string "bool option" "bool option"
  | Call_json string
  | Call_csv string
  | Call_uuid string "OnCreate nullable option" "OnUpdate nullable option"
  | Call_hash string
  | Call_geometryPoint string
  | Call_geometryLineString string
  | Call_geometryPolygon string
  | Call_geometryMultiPoint string
  | Call_geometryMultiLineString string
  | Call_geometryMultiPolygon string
  | Call_file string
  | Call_image string

fun declare_field :: "FieldCall \<Rightarrow> Collection \<Rightarrow> FieldRef" where
  "declare_field (Call_field nm ty s m) c = Collection_field nm ty s m c"
| "declare_field (Call_primary_key nm ty) c = Collection_primary_key nm ty c"
| "declare_field (Call_user_created nm t) c = Collection_user_created nm t c"
| "declare_field (Call_role_created nm t) c = Collection_role_created nm t c"
| "declare_field (Call_user_updated nm t) c = Collection_user_updated nm t c"
| "declare_field (Call_role_updated nm t) c = Collection_role_updated nm t c"
| "declare_field (Call_date_created nm) c = Collection_date_created nm c"
| "declare_field (Call_date_updated nm) c = Collection_date_updated nm c"
| "declare_field (Call_string nm l) c = Collection_string nm l c"
| "declare_field (Call_text nm) c = Collection_text nm c"
| "declare_field (Call_boolean nm) c = Collection_boolean nm c"
| "declare_field (Call_integer nm p) c = Collection_integer nm p c"
| "declare_field (Call_bigInteger nm p) c = Collection_bigInteger nm p c"
| "declare_field (Call_float nm p sc) c = Collection_float nm p sc c"
| "declare_field (Call_decimal nm p sc) c = Collection_decimal nm p sc c"
| "declare_field (Call_datetime nm a b) c = Collection_datetime nm a b c"
| "declare_field (Call_timestamp nm a b) c = Collection_timestamp nm a b c"
| "declare_field (Call_date nm a b) c = Collection_date nm a b c"
| "declare_field (Call_time nm a b) c = Collection_time nm a b c"
| "declare_field (Call_json nm) c = Collection_json nm c"
| "declare_field (Call_csv nm) c = Collection_csv nm c"
| "declare_field (Call_uuid nm a b) c = Collection_uuid nm a b c"
| "declare_field (Call_hash nm) c = Collection_hash nm c"
| "declare_field (Call_geometryPoint nm) c = Collection_geometryPoint nm c"
| "declare_field (Call_geometryLineString nm) c = Collection_geometryLineString nm c"
| "declare_field (Call_geometryPolygon nm) c = Collection_geometryPolygon nm c"
| "declare_field (Call_geometryMultiPoint nm) c = Collection_geometryMultiPoint nm c"
| "declare_field (Call_geometryMultiLineString nm) c = Collection_geometryMultiLineString nm c"
| "declare_field (Call_geometryMultiPolygon nm) c = Collection_geometryMultiPolygon nm c"
| "declare_field (Call_file nm) c = Collection_file nm c"
| "declare_field (Call_image nm) c = Collection_image nm c"

text \<open>A sequence of field-declaring calls, made one after the other.\<close>

fun declare_all :: "FieldCall list \<Rightarrow> Collection \<Rightarrow> Collection" where
  "declare_all [] c = c"
| "declare_all (call # calls) c = declare_all calls (snd (declare_field call c))"

text \<open>The field object a call returns, as it is right after the call.\<close>

definition declared :: "FieldCall \<Rightarrow> Collection \<Rightarrow> Field" where
  "declared call c = (case declare_field call c of (h, c') \<Rightarrow> the_fields c' ! h)"

text \<open>
  Any state-changing method of the class, and a sequence of such calls; the first
  error ends the sequence, as an uncaught exception would. \<open>step\<close> is the call on a
  collection whose objects accept every write; \<open>strict_step\<close> below adds the writes
  that an object given to the constructor can reject.
\<close>

datatype Call =
    Hidden "bool option"
  | Singleton "bool option"
  | Sort string
  | Archive string "string nullable option" "string nullable option" "bool option"
  | Accountability "CollectionAccountability nullable"
  | Translate string string "string option" "string option"
  | Relate string "string nullable option"
  | Declare FieldCall

fun step :: "Call \<Rightarrow> Collection \<Rightarrow> error + Collection" where
  "step (Hidden v) c = Inr (Collection_hidden v c)"
| "step (Singleton v) c = Inr (Collection_singleton v c)"
| "step (Sort f) c = Inr (Collection_sort f c)"
| "step (Archive f a u flt) c = Inr (Collection_archive f a u flt c)"
| "step (Accountability v) c = Inr (Collection_accountability v c)"
| "step (Translate l t sg pl) c = Collection_translation l t sg pl c"
| "step (Relate f r) c = Inr (Collection_relation f r c)"
| "step (Declare call) c = Inr (snd (declare_field call c))"

fun run :: "Call list \<Rightarrow> Collection \<Rightarrow> error + Collection" where
  "run [] c = Inr c"
| "run (call # calls) c =
     (case step call c of Inl e \<Rightarrow> Inl e | Inr c' \<Rightarrow> run calls c')"

fun is_Declare :: "Call \<Rightarrow> bool" where
  "is_Declare (Declare call) = True"
| "is_Declare other = False"

text \<open>
  The state after one field-declaring call: the reference to the new field, the
  field appended to the fields the collection had, and the registry.
\<close>

definition added :: "Collection \<Rightarrow> Field \<Rightarrow> Builder \<Rightarrow> FieldRef" where
  "added c f b = (length (the_fields c), c\<lparr>builder := b, the_fields := the_fields c @ [f]\<rparr>)"

subsection \<open>render with its calls made explicit\<close>

text \<open>
  \<open>Collection_render\<close> above gives the value \<open>render()\<close> returns. The method is a call
  on a mutable object that itself calls \<open>field.render()\<close> on every field, so what it
  leaves behind is part of its behaviour. Here every call receives the state and
  returns it with its result: a mutation made by a callee would reach the later
  callees and the caller.
\<close>

text \<open>
  Modelled from the spec: \<open>Field.render()\<close> as a call on the referenced field object. It
  yields \<open>{field: name, type, schema, meta}\<close> (section 4.2) and writes nothing.
\<close>

definition Field_render_call :: "FieldRef \<Rightarrow> FieldOutput \<times> Collection" where
  "Field_render_call r = (case r of (h, c) \<Rightarrow> (Field_render (the_fields c ! h), c))"

text \<open>
  \<open>Array.prototype.map\<close>: the callback is called for the indices below the length the
  array had at the start, in increasing order, each time on the element the array
  holds then; an index the array no longer has is skipped.
\<close>

fun map_render :: "nat list \<Rightarrow> Collection \<Rightarrow> FieldOutput list \<times> Collection" where
  "map_render [] c = ([], c)"
| "map_render (h # hs) c =
     (if h < length (the_fields c)
      then (case Field_render_call (h, c) of
              (out, c1) \<Rightarrow> (case map_render hs c1 of (outs, c2) \<Rightarrow> (out # outs, c2)))
      else map_render hs c)"

definition Collection_render_call :: "Collection \<Rightarrow> CollectionOutput \<times> Collection" where
  "Collection_render_call c =
     (let collection_name = name c; schema_read = schema c; meta_read = meta c
      in case map_render [0..<length (the_fields c)] c of
           (outs, c') \<Rightarrow>
             (\<lparr>out_collection = collection_name, out_schema = schema_read,
               out_meta = meta_read, out_fields = outs\<rparr>, c'))"

subsection \<open>Writes to objects that reject them\<close>




subsection \<open>Example inputs\<close>

definition example_builder :: Builder where
  "example_builder = \<lparr>relations = []\<rparr>"

text \<open>\<open>new Collection(builder, "articles")\<close>.\<close>

definition articles :: Collection where
  "articles = new_Collection example_builder ''articles'' None None None"

text \<open>A collection constructed with one field already in its \<open>fields\<close> argument.\<close>

definition legacy :: Collection where
  "legacy = new_Collection example_builder ''legacy'' None None
              (Some [new_Field ''id'' ''integer'' None None])"




section \<open>Properties\<close>

subsection \<open>The state after one field-declaring call\<close>

lemma Collection_field_added:
  "Collection_field nm ty s m c = added c (new_Field nm ty s m) (builder c)"
  by (simp add: Collection_field_def added_def)

lemma update_field_added: "update_field g (added c f b) = added c (g f) b"
  by (simp add: update_field_def added_def)

lemma Field_relation_added:
  "Field_relation r (added c f b) =
     added c f (Builder_relation (name c) (f_name f) (Value r) b)"
  by (simp add: Field_relation_def added_def)

lemma Field_on_delete_added:
  "Field_on_delete p (added c f b) = added c f (Builder_on_delete (name c) (f_name f) p b)"
  by (simp add: Field_on_delete_def added_def)

lemma Builder_on_delete_relation:
  "Builder_on_delete cn fn p (Builder_relation cn fn r b) =
     b\<lparr>relations := relations b @
        [\<lparr>rel_collection = cn, rel_field = fn, rel_related = r, rel_on_delete = Some p\<rparr>]\<rparr>"
  by (simp add: Builder_on_delete_def Builder_relation_def)

lemma pair_added: "(fst (added c f b), snd (added c g b')) = added c g b'"
  by (simp add: added_def)

lemmas Field_setters_added =
  Field_notNullable_def Field_pk_def Field_autoincrement_def Field_special_def
  Field_interface_def Field_display_def update_field_added

lemmas closed_form =
  Let_def Collection_field_added Field_setters_added Field_relation_added
  Field_on_delete_added Builder_on_delete_relation pair_added

lemmas literals = added_def new_Field_def empty_FieldSchema_def empty_FieldMeta_def

lemmas examples =
  articles_def legacy_def example_builder_def new_Collection_def empty_CollectionMeta_def

lemma added_ex: "\<exists>g b'. added c f b = added c g b'"
  by blast

lemma added_ex1: "\<exists>g. added c f b = added c g b"
  by blast

lemma Collection_uuid_added:
  "Collection_uuid nm on_create on_update c =
      added c (new_Field nm ''uuid'' None None
          \<lparr>f_meta := empty_FieldMeta\<lparr>special :=
             (if default_arg Null on_create = Null \<and> default_arg Null on_update = Null
              then None
              else Some ((case default_arg Null on_create of
                            Null \<Rightarrow> [] | Value k \<Rightarrow> [on_create_options k]) @
                         (case default_arg Null on_update of
                            Null \<Rightarrow> [] | Value k \<Rightarrow> [on_update_options k])))\<rparr>\<rparr>)
        (builder c)"
  by (simp add: Collection_uuid_def closed_form new_Field_def empty_FieldMeta_def
        split: nullable.split)

lemma date_special_added: "\<exists>g. date_special (added c f b) x y = added c g b"
  by (simp add: date_special_def Let_def Field_setters_added added_ex1)

lemma date_special_added_ex: "\<exists>g b'. date_special (added c f b) x y = added c g b'"
  using date_special_added by blast

text \<open>
  Every field-declaring call appends exactly one field object to the fields the
  collection had and returns the reference to it; it changes nothing else but the
  registry.
\<close>

lemma declare_field_added: "\<exists>f b. declare_field call c = added c f b"
proof (cases call)
  case (Call_primary_key nm ty)
  then show ?thesis
    by (cases ty) (simp_all add: Collection_primary_key_def closed_form added_ex)
next
  case (Call_uuid nm a b)
  then show ?thesis by (simp add: Collection_uuid_added added_ex)
next
  case (Call_user_created nm t)
  then show ?thesis
    by (simp add: Collection_user_created_def Collection_uuid_added closed_form added_ex)
next
  case (Call_role_created nm t)
  then show ?thesis
    by (simp add: Collection_role_created_def Collection_uuid_added closed_form added_ex)
next
  case (Call_user_updated nm t)
  then show ?thesis
    by (simp add: Collection_user_updated_def Collection_uuid_added closed_form added_ex)
next
  case (Call_role_updated nm t)
  then show ?thesis
    by (simp add: Collection_role_updated_def Collection_uuid_added closed_form added_ex)
next
  case (Call_datetime nm x y)
  then show ?thesis
    by (simp add: Collection_datetime_def Collection_field_added date_special_added_ex)
next
  case (Call_timestamp nm x y)
  then show ?thesis
    by (simp add: Collection_timestamp_def Collection_field_added date_special_added_ex)
next
  case (Call_date nm x y)
  then show ?thesis
    by (simp add: Collection_date_def Collection_field_added date_special_added_ex)
next
  case (Call_time nm x y)
  then show ?thesis
    by (simp add: Collection_time_def Collection_field_added date_special_added_ex)
next
  case (Call_date_created nm)
  obtain g where "date_special (added c (new_Field nm ''timestamp'' None None) (builder c))
      True False = added c g (builder c)"
    using date_special_added by blast
  with Call_date_created show ?thesis
    by (simp add: Collection_date_created_def Collection_timestamp_def closed_form added_ex)
next
  case (Call_date_updated nm)
  obtain g where "date_special (added c (new_Field nm ''timestamp'' None None) (builder c))
      False True = added c g (builder c)"
    using date_special_added by blast
  with Call_date_updated show ?thesis
    by (simp add: Collection_date_updated_def Collection_timestamp_def closed_form added_ex)
qed (simp_all add: Collection_string_def Collection_text_def Collection_boolean_def
      Collection_integer_def Collection_bigInteger_def Collection_float_def
      Collection_decimal_def Collection_json_def Collection_csv_def Collection_hash_def
      Collection_geometryPoint_def Collection_geometryLineString_def
      Collection_geometryPolygon_def Collection_geometryMultiPoint_def
      Collection_geometryMultiLineString_def Collection_geometryMultiPolygon_def
      Collection_file_def Collection_image_def closed_form added_ex)

lemma declare_field_fields:
  "the_fields (snd (declare_field call c)) = the_fields c @ [declared call c]"
proof -
  obtain f b where "declare_field call c = added c f b"
    using declare_field_added by blast
  then show ?thesis by (simp add: declared_def added_def)
qed

lemma declare_field_frame:
  "name (snd (declare_field call c)) = name c
   \<and> schema (snd (declare_field call c)) = schema c
   \<and> meta (snd (declare_field call c)) = meta c
   \<and> length (the_fields (snd (declare_field call c))) = Suc (length (the_fields c))"
proof -
  obtain f b where "declare_field call c = added c f b"
    using declare_field_added by blast
  then show ?thesis by (simp add: added_def)
qed

subsection \<open>Declaration order\<close>

lemma declare_all_append:
  "declare_all (xs @ ys) c = declare_all ys (declare_all xs c)"
  by (induction xs arbitrary: c) simp_all

lemma declare_all_fields:
  "the_fields (declare_all calls c) =
     the_fields c @
     map (\<lambda>i. declared (calls ! i) (declare_all (take i calls) c)) [0..<length calls]"
proof (induction calls rule: rev_induct)
  case Nil
  then show ?case by simp
next
  case (snoc x xs)
  have "map (\<lambda>i. declared ((xs @ [x]) ! i) (declare_all (take i (xs @ [x])) c)) [0..<length xs]
      = map (\<lambda>i. declared (xs ! i) (declare_all (take i xs) c)) [0..<length xs]"
    by (rule map_cong) (simp_all add: nth_append)
  with snoc show ?case
    by (simp add: declare_all_append declare_field_fields)
qed

text \<open>
  C1, as amended. The claim says that \<open>render().fields\<close> is as long as the number of
  field-declaring calls made. The constructor takes an optional \<open>fields\<close> argument
  (line 57), and the fields given there are rendered too. What holds for every
  sequence of field-declaring calls on every collection: \<open>render().fields\<close> has as
  many elements as the collection had fields before the calls plus the number of
  calls; the elements the collection had come first, unchanged; and after them the
  element at position \<open>i\<close> is the rendering of the field object that the \<open>i\<close>-th
  call returned, so the declared fields stand in the order of the calls.
\<close>

theorem fields_in_declaration_order:
  "length (out_fields (Collection_render (declare_all calls c))) =
     length (the_fields c) + length calls
   \<and> take (length (the_fields c)) (out_fields (Collection_render (declare_all calls c))) =
     out_fields (Collection_render c)
   \<and> (\<forall>i < length calls.
        out_fields (Collection_render (declare_all calls c)) ! (length (the_fields c) + i) =
          Field_render (declared (calls ! i) (declare_all (take i calls) c)))"
  by (simp add: Collection_render_def declare_all_fields nth_append take_map)

text \<open>
  Three calls on a collection constructed without fields: the second rendered field
  is the field the second call returned, here the string field \<open>title\<close>.
\<close>

theorem fields_in_declaration_order_witness:
  "(1::nat) < length [Call_primary_key ''id'' PK_integer, Call_string ''title'' None,
                      Call_file ''cover'']
   \<and> length (out_fields (Collection_render (declare_all
        [Call_primary_key ''id'' PK_integer, Call_string ''title'' None, Call_file ''cover'']
        articles))) = 3
   \<and> out_fields (Collection_render (declare_all
        [Call_primary_key ''id'' PK_integer, Call_string ''title'' None, Call_file ''cover'']
        articles)) ! 1 =
      \<lparr>o_field = ''title'', o_type = ''string'',
       o_schema = \<lparr>max_length = Some 255, numeric_precision = None, numeric_scale = None,
                   nullable = None, primary_key = None, autoincrement = None\<rparr>,
       o_meta = \<lparr>interface = None, options = None, display = None,
                 display_options = None, special = None\<rparr>\<rparr>"
proof -
  let ?calls = "[Call_primary_key ''id'' PK_integer, Call_string ''title'' None,
                 Call_file ''cover'']"
  have len: "(1::nat) < length ?calls" by simp
  have no_fields: "length (the_fields articles) = 0"
    by (simp add: examples)
  have second: "Field_render (declared (?calls ! 1) (declare_all (take 1 ?calls) articles)) =
      \<lparr>o_field = ''title'', o_type = ''string'',
       o_schema = \<lparr>max_length = Some 255, numeric_precision = None, numeric_scale = None,
                   nullable = None, primary_key = None, autoincrement = None\<rparr>,
       o_meta = \<lparr>interface = None, options = None, display = None,
                 display_options = None, special = None\<rparr>\<rparr>"
    by (simp add: declared_def Collection_string_def Collection_field_def Field_render_def
          new_Field_def empty_FieldSchema_def empty_FieldMeta_def)
  from fields_in_declaration_order [of ?calls articles] len
  have "length (out_fields (Collection_render (declare_all ?calls articles))) =
          length (the_fields articles) + length ?calls"
    and "out_fields (Collection_render (declare_all ?calls articles)) !
            (length (the_fields articles) + 1) =
          Field_render (declared (?calls ! 1) (declare_all (take 1 ?calls) articles))"
    by blast+
  with len no_fields second show ?thesis by simp
qed

text \<open>
  The claim as it is stated fails on a collection that was constructed with a field:
  after one call \<open>render().fields\<close> has two elements.
\<close>

theorem fields_length_counterexample:
  "length (out_fields (Collection_render (declare_all [Call_text ''title''] legacy))) \<noteq>
   length [Call_text ''title'']"
  by (simp add: examples Collection_text_def Collection_field_def Collection_render_def)

subsection \<open>primary_key\<close>

text \<open>
  C2. For every name, \<open>primary_key(name, type)\<close> appends one field of the given type
  whose schema has \<open>nullable = false\<close> and \<open>primary_key = true\<close>. For \<open>"integer"\<close> the
  schema has also \<open>autoincrement = true\<close>. For \<open>"uuid"\<close> the autoincrement flag is
  unset and the special tags are \<open>["uuid"]\<close>. For \<open>"string"\<close> the autoincrement flag
  and the special tags are both unset.
\<close>

theorem primary_key_flags:
  "Collection_primary_key nm PK_integer c =
     (length (the_fields c),
      c\<lparr>the_fields := the_fields c @
         [\<lparr>f_name = nm, f_type = ''integer'',
           f_schema = \<lparr>max_length = None, numeric_precision = None, numeric_scale = None,
                       nullable = Some False, primary_key = Some True,
                       autoincrement = Some True\<rparr>,
           f_meta = \<lparr>interface = None, options = None, display = None,
                     display_options = None, special = None\<rparr>\<rparr>]\<rparr>)
  \<and> Collection_primary_key nm PK_uuid c =
     (length (the_fields c),
      c\<lparr>the_fields := the_fields c @
         [\<lparr>f_name = nm, f_type = ''uuid'',
           f_schema = \<lparr>max_length = None, numeric_precision = None, numeric_scale = None,
                       nullable = Some False, primary_key = Some True,
                       autoincrement = None\<rparr>,
           f_meta = \<lparr>interface = None, options = None, display = None,
                     display_options = None, special = Some [''uuid'']\<rparr>\<rparr>]\<rparr>)
  \<and> Collection_primary_key nm PK_string c =
     (length (the_fields c),
      c\<lparr>the_fields := the_fields c @
         [\<lparr>f_name = nm, f_type = ''string'',
           f_schema = \<lparr>max_length = None, numeric_precision = None, numeric_scale = None,
                       nullable = Some False, primary_key = Some True,
                       autoincrement = None\<rparr>,
           f_meta = \<lparr>interface = None, options = None, display = None,
                     display_options = None, special = None\<rparr>\<rparr>]\<rparr>)"
  apply (simp add: Collection_primary_key_def closed_form)
  apply (simp add: literals)
  done

theorem primary_key_flags_witness:
  "f_schema (declared (Call_primary_key ''id'' PK_integer) articles) =
     \<lparr>max_length = None, numeric_precision = None, numeric_scale = None,
      nullable = Some False, primary_key = Some True, autoincrement = Some True\<rparr>
   \<and> autoincrement (f_schema (declared (Call_primary_key ''id'' PK_uuid) articles)) = None
   \<and> special (f_meta (declared (Call_primary_key ''id'' PK_uuid) articles)) = Some [''uuid'']"
  using primary_key_flags [of "''id''" articles]
  by (simp add: declared_def examples)

subsection \<open>uuid\<close>

text \<open>
  C3. For every name and every \<open>on_create\<close> and \<open>on_update\<close>, \<open>uuid(name, on_create,
  on_update)\<close> appends one field of type \<open>uuid\<close>. Its special tags are the create tag
  (\<open>uuid\<close> for \<open>"uuid"\<close>, \<open>user-created\<close> for \<open>"user"\<close>, \<open>role-created\<close> for \<open>"role"\<close>)
  followed by the update tag (\<open>user-updated\<close> for \<open>"user"\<close>, \<open>role-updated\<close> for
  \<open>"role"\<close>), each present exactly when its argument is given and not null; when
  both are absent the special tags stay unset. In particular
  \<open>uuid("owner", "user", "role")\<close> has the special tags
  \<open>["user-created", "role-updated"]\<close>.
\<close>

theorem uuid_special_tags:
  "Collection_uuid nm on_create on_update c =
     (length (the_fields c),
      c\<lparr>the_fields := the_fields c @
         [\<lparr>f_name = nm, f_type = ''uuid'',
           f_schema = \<lparr>max_length = None, numeric_precision = None, numeric_scale = None,
                       nullable = None, primary_key = None, autoincrement = None\<rparr>,
           f_meta = \<lparr>interface = None, options = None, display = None,
                     display_options = None,
                     special =
                       (if (on_create = None \<or> on_create = Some Null) \<and>
                           (on_update = None \<or> on_update = Some Null)
                        then None
                        else Some
                          ((case on_create of
                              Some (Value OC_uuid) \<Rightarrow> [''uuid'']
                            | Some (Value OC_user) \<Rightarrow> [''user-created'']
                            | Some (Value OC_role) \<Rightarrow> [''role-created'']
                            | _ \<Rightarrow> []) @
                           (case on_update of
                              Some (Value OU_user) \<Rightarrow> [''user-updated'']
                            | Some (Value OU_role) \<Rightarrow> [''role-updated'']
                            | _ \<Rightarrow> [])))\<rparr>\<rparr>]\<rparr>)
  \<and> Collection_uuid ''owner'' (Some (Value OC_user)) (Some (Value OU_role)) c =
     (length (the_fields c),
      c\<lparr>the_fields := the_fields c @
         [\<lparr>f_name = ''owner'', f_type = ''uuid'',
           f_schema = \<lparr>max_length = None, numeric_precision = None, numeric_scale = None,
                       nullable = None, primary_key = None, autoincrement = None\<rparr>,
           f_meta = \<lparr>interface = None, options = None, display = None,
                     display_options = None,
                     special = Some [''user-created'', ''role-updated'']\<rparr>\<rparr>]\<rparr>)"
  by (cases on_create; cases on_update)
     (auto simp: Collection_uuid_added literals
           split: nullable.split OnCreate.split OnUpdate.split)

theorem uuid_special_tags_witness:
  "special (f_meta (declared (Call_uuid ''owner'' (Some (Value OC_user)) (Some (Value OU_role)))
      articles)) = Some [''user-created'', ''role-updated'']
   \<and> special (f_meta (declared (Call_uuid ''token'' None (Some (Value OU_user))) articles)) =
       Some [''user-updated'']
   \<and> special (f_meta (declared (Call_uuid ''plain'' None None) articles)) = None"
  using uuid_special_tags [of "''owner''" "Some (Value OC_user)" "Some (Value OU_role)" articles]
    uuid_special_tags [of "''token''" None "Some (Value OU_user)" articles]
    uuid_special_tags [of "''plain''" None None articles]
  by (simp add: declared_def examples)

subsection \<open>user_created, role_created, user_updated, role_updated\<close>

text \<open>
  C4. Each of \<open>user_created\<close>, \<open>role_created\<close>, \<open>user_updated\<close> and \<open>role_updated\<close>
  appends one field of type \<open>uuid\<close> whose only special tag is \<open>user-created\<close>,
  \<open>role-created\<close>, \<open>user-updated\<close> or \<open>role-updated\<close> respectively, with the interface
  \<open>select-dropdown-m2o\<close> carrying the template and the display \<open>user\<close> (user helpers)
  or \<open>related-values\<close> carrying the template (role helpers), and appends to the
  registry one relation from that field of this collection to \<open>directus_users\<close> (user
  helpers) or \<open>directus_roles\<close> (role helpers) with the delete policy \<open>SET NULL\<close>.
\<close>

theorem stamp_helpers:
  "Collection_user_created nm template c =
     (length (the_fields c),
      c\<lparr>builder := (builder c)\<lparr>relations := relations (builder c) @
           [\<lparr>rel_collection = name c, rel_field = nm,
             rel_related = Value ''directus_users'',
             rel_on_delete = Some ''SET NULL''\<rparr>]\<rparr>,
        the_fields := the_fields c @
         [\<lparr>f_name = nm, f_type = ''uuid'',
           f_schema = \<lparr>max_length = None, numeric_precision = None, numeric_scale = None,
                       nullable = None, primary_key = None, autoincrement = None\<rparr>,
           f_meta = \<lparr>interface = Some ''select-dropdown-m2o'',
                     options = Some [(''template'', JString (case template of
                        None \<Rightarrow> ''{{avatar.$thumbnail}} {{first_name}} {{last_name}}''
                      | Some t \<Rightarrow> t))],
                     display = Some ''user'', display_options = None,
                     special = Some [''user-created'']\<rparr>\<rparr>]\<rparr>)
  \<and> Collection_role_created nm template c =
     (length (the_fields c),
      c\<lparr>builder := (builder c)\<lparr>relations := relations (builder c) @
           [\<lparr>rel_collection = name c, rel_field = nm,
             rel_related = Value ''directus_roles'',
             rel_on_delete = Some ''SET NULL''\<rparr>]\<rparr>,
        the_fields := the_fields c @
         [\<lparr>f_name = nm, f_type = ''uuid'',
           f_schema = \<lparr>max_length = None, numeric_precision = None, numeric_scale = None,
                       nullable = None, primary_key = None, autoincrement = None\<rparr>,
           f_meta = \<lparr>interface = Some ''select-dropdown-m2o'',
                     options = Some [(''template'', JString (case template of
                        None \<Rightarrow> ''{{name}}'' | Some t \<Rightarrow> t))],
                     display = Some ''related-values'',
                     display_options = Some [(''template'', JString (case template of
                        None \<Rightarrow> ''{{name}}'' | Some t \<Rightarrow> t))],
                     special = Some [''role-created'']\<rparr>\<rparr>]\<rparr>)
  \<and> Collection_user_updated nm template c =
     (length (the_fields c),
      c\<lparr>builder := (builder c)\<lparr>relations := relations (builder c) @
           [\<lparr>rel_collection = name c, rel_field = nm,
             rel_related = Value ''directus_users'',
             rel_on_delete = Some ''SET NULL''\<rparr>]\<rparr>,
        the_fields := the_fields c @
         [\<lparr>f_name = nm, f_type = ''uuid'',
           f_schema = \<lparr>max_length = None, numeric_precision = None, numeric_scale = None,
                       nullable = None, primary_key = None, autoincrement = None\<rparr>,
           f_meta = \<lparr>interface = Some ''select-dropdown-m2o'',
                     options = Some [(''template'', JString (case template of
                        None \<Rightarrow> ''{{avatar.$thumbnail}} {{first_name}} {{last_name}}''
                      | Some t \<Rightarrow> t))],
                     display = Some ''user'', display_options = None,
                     special = Some [''user-updated'']\<rparr>\<rparr>]\<rparr>)
  \<and> Collection_role_updated nm template c =
     (length (the_fields c),
      c\<lparr>builder := (builder c)\<lparr>relations := relations (builder c) @
           [\<lparr>rel_collection = name c, rel_field = nm,
             rel_related = Value ''directus_roles'',
             rel_on_delete = Some ''SET NULL''\<rparr>]\<rparr>,
        the_fields := the_fields c @
         [\<lparr>f_name = nm, f_type = ''uuid'',
           f_schema = \<lparr>max_length = None, numeric_precision = None, numeric_scale = None,
                       nullable = None, primary_key = None, autoincrement = None\<rparr>,
           f_meta = \<lparr>interface = Some ''select-dropdown-m2o'',
                     options = Some [(''template'', JString (case template of
                        None \<Rightarrow> ''{{name}}'' | Some t \<Rightarrow> t))],
                     display = Some ''related-values'',
                     display_options = Some [(''template'', JString (case template of
                        None \<Rightarrow> ''{{name}}'' | Some t \<Rightarrow> t))],
                     special = Some [''role-updated'']\<rparr>\<rparr>]\<rparr>)"
  apply (simp add: Collection_user_created_def Collection_role_created_def
        Collection_user_updated_def Collection_role_updated_def Collection_uuid_def
        user_template_def role_template_def closed_form split: option.split)
  apply (simp add: literals)
  done

theorem stamp_helpers_witness:
  "relations (builder (snd (Collection_user_updated ''editor'' None articles))) =
     [\<lparr>rel_collection = ''articles'', rel_field = ''editor'',
       rel_related = Value ''directus_users'', rel_on_delete = Some ''SET NULL''\<rparr>]
   \<and> special (f_meta (declared (Call_user_updated ''editor'' None) articles)) =
       Some [''user-updated'']
   \<and> relations (builder (snd (Collection_role_created ''group'' None articles))) =
     [\<lparr>rel_collection = ''articles'', rel_field = ''group'',
       rel_related = Value ''directus_roles'', rel_on_delete = Some ''SET NULL''\<rparr>]
   \<and> special (f_meta (declared (Call_role_created ''group'' None) articles)) =
       Some [''role-created'']"
  using stamp_helpers [of "''editor''" None articles] stamp_helpers [of "''group''" None articles]
  by (simp add: declared_def examples)

subsection \<open>file and image\<close>

text \<open>
  C5. For every name, \<open>file(name)\<close> and \<open>image(name)\<close> each append one field of type
  \<open>uuid\<close> with the special tag \<open>file\<close> and append to the registry one relation from
  that field to \<open>directus_files\<close> with the delete policy \<open>SET NULL\<close>. The two results
  differ only in the interface and display names of the new field, \<open>file\<close> and
  \<open>file\<close> against \<open>file-image\<close> and \<open>image\<close>: setting these two names on the field
  that \<open>file\<close> returns gives the result of \<open>image\<close>.
\<close>

theorem file_image_fields:
  "Collection_file nm c =
     (length (the_fields c),
      c\<lparr>builder := (builder c)\<lparr>relations := relations (builder c) @
           [\<lparr>rel_collection = name c, rel_field = nm,
             rel_related = Value ''directus_files'',
             rel_on_delete = Some ''SET NULL''\<rparr>]\<rparr>,
        the_fields := the_fields c @
         [\<lparr>f_name = nm, f_type = ''uuid'',
           f_schema = \<lparr>max_length = None, numeric_precision = None, numeric_scale = None,
                       nullable = None, primary_key = None, autoincrement = None\<rparr>,
           f_meta = \<lparr>interface = Some ''file'', options = None,
                     display = Some ''file'', display_options = None,
                     special = Some [''file'']\<rparr>\<rparr>]\<rparr>)
  \<and> Collection_image nm c =
     (length (the_fields c),
      c\<lparr>builder := (builder c)\<lparr>relations := relations (builder c) @
           [\<lparr>rel_collection = name c, rel_field = nm,
             rel_related = Value ''directus_files'',
             rel_on_delete = Some ''SET NULL''\<rparr>]\<rparr>,
        the_fields := the_fields c @
         [\<lparr>f_name = nm, f_type = ''uuid'',
           f_schema = \<lparr>max_length = None, numeric_precision = None, numeric_scale = None,
                       nullable = None, primary_key = None, autoincrement = None\<rparr>,
           f_meta = \<lparr>interface = Some ''file-image'', options = None,
                     display = Some ''image'', display_options = None,
                     special = Some [''file'']\<rparr>\<rparr>]\<rparr>)
  \<and> Collection_image nm c =
       update_field (\<lambda>f. f\<lparr>f_meta := (f_meta f)\<lparr>interface := Some ''file-image'',
                                                   display := Some ''image''\<rparr>\<rparr>)
         (Collection_file nm c)"
  apply (simp add: Collection_file_def Collection_image_def closed_form)
  apply (simp add: literals update_field_def)
  done

theorem file_image_fields_witness:
  "relations (builder (snd (Collection_file ''avatar'' articles))) =
     [\<lparr>rel_collection = ''articles'', rel_field = ''avatar'',
       rel_related = Value ''directus_files'', rel_on_delete = Some ''SET NULL''\<rparr>]
   \<and> relations (builder (snd (Collection_image ''avatar'' articles))) =
       relations (builder (snd (Collection_file ''avatar'' articles)))
   \<and> Field_render (declared (Call_file ''avatar'') articles) =
     \<lparr>o_field = ''avatar'', o_type = ''uuid'',
      o_schema = \<lparr>max_length = None, numeric_precision = None, numeric_scale = None,
                  nullable = None, primary_key = None, autoincrement = None\<rparr>,
      o_meta = \<lparr>interface = Some ''file'', options = None, display = Some ''file'',
                display_options = None, special = Some [''file'']\<rparr>\<rparr>
   \<and> Field_render (declared (Call_image ''avatar'') articles) =
     \<lparr>o_field = ''avatar'', o_type = ''uuid'',
      o_schema = \<lparr>max_length = None, numeric_precision = None, numeric_scale = None,
                  nullable = None, primary_key = None, autoincrement = None\<rparr>,
      o_meta = \<lparr>interface = Some ''file-image'', options = None, display = Some ''image'',
                display_options = None, special = Some [''file'']\<rparr>\<rparr>"
  using file_image_fields [of "''avatar''" articles]
  by (simp add: declared_def Field_render_def examples)

subsection \<open>archive\<close>

text \<open>
  C6. For every field name \<open>f\<close>, \<open>archive(f)\<close> with the other arguments omitted sets
  \<open>meta.archive_field = f\<close>, \<open>meta.archive_value = "archived"\<close>,
  \<open>meta.unarchive_value = "draft"\<close> and \<open>meta.archive_app_filter = true\<close> and changes
  nothing else, whether or not the collection has a field of that name. An
  explicit null for the archive value or for the unarchive value is stored as
  null, which is not the unset state.
\<close>

theorem archive_defaults:
  "Collection_archive f None None None c =
     c\<lparr>meta := (meta c)\<lparr>archive_field := Some f,
                             archive_value := Some (Value ''archived''),
                             unarchive_value := Some (Value ''draft''),
                             archive_app_filter := Some True\<rparr>\<rparr>
   \<and> archive_value (meta (Collection_archive f (Some Null) u flt c)) = Some Null
   \<and> unarchive_value (meta (Collection_archive f a (Some Null) flt c)) = Some Null"
  by (simp add: Collection_archive_def)

theorem archive_defaults_witness:
  "findField ''status'' articles = None
   \<and> meta (Collection_archive ''status'' None None None articles) =
     \<lparr>sort_field = None, archive_field = Some ''status'',
      archive_value = Some (Value ''archived''), unarchive_value = Some (Value ''draft''),
      archive_app_filter = Some True, accountability = None, hidden = None,
      singleton = None, translations = None\<rparr>
   \<and> archive_value (meta articles) = None
   \<and> archive_value (meta (Collection_archive ''status'' (Some Null) None None articles)) =
       Some Null"
  using archive_defaults [of "''status''" articles None None]
  by (simp add: findField_def examples)

subsection \<open>translation\<close>

lemma Collection_translation_Inr:
  "Collection_translation l t sg pl c =
     Inr (c\<lparr>meta := (meta c)\<lparr>translations :=
        Some ((case translations (meta c) of None \<Rightarrow> [] | Some ts \<Rightarrow> ts) @
              [\<lparr>tr_language = l, tr_translation = t, tr_singular = sg, tr_plural = pl\<rparr>])\<rparr>\<rparr>)"
  by (simp add: Collection_translation_def array_push_def isArray_def split: option.split)

lemma run_translations:
  "run (map (\<lambda>(l, t, sg, pl). Translate l t sg pl) args) c =
     Inr (c\<lparr>meta := (meta c)\<lparr>translations :=
        (if args = [] then translations (meta c)
         else Some ((case translations (meta c) of None \<Rightarrow> [] | Some ts \<Rightarrow> ts) @
                    map (\<lambda>(l, t, sg, pl).
                          \<lparr>tr_language = l, tr_translation = t,
                           tr_singular = sg, tr_plural = pl\<rparr>) args))\<rparr>\<rparr>)"
proof (induction args arbitrary: c)
  case Nil
  then show ?case by simp
next
  case (Cons a args)
  then show ?case
    by (cases a) (simp add: Collection_translation_Inr)
qed

text \<open>
  One call of any method returns without an error; it keeps the name and the schema,
  adds one field exactly when it is a field-declaring call, and keeps the entries of
  \<open>meta.translations\<close> as a prefix of the new ones.
\<close>

lemma step_total:
  "\<exists>c' new. step call c = Inr c'
     \<and> name c' = name c \<and> schema c' = schema c
     \<and> length (the_fields c') = length (the_fields c) + (if is_Declare call then 1 else 0)
     \<and> (case translations (meta c') of None \<Rightarrow> [] | Some ts \<Rightarrow> ts) =
         (case translations (meta c) of None \<Rightarrow> [] | Some ts \<Rightarrow> ts) @ new"
  by (cases call)
     (simp_all add: Collection_hidden_def Collection_singleton_def Collection_sort_def
        Collection_archive_def Collection_accountability_def Collection_relation_def
        Collection_translation_Inr declare_field_frame)

lemma run_total:
  "\<exists>c' new. run calls c = Inr c'
     \<and> name c' = name c \<and> schema c' = schema c
     \<and> length (the_fields c') = length (the_fields c) + length (filter is_Declare calls)
     \<and> (case translations (meta c') of None \<Rightarrow> [] | Some ts \<Rightarrow> ts) =
         (case translations (meta c) of None \<Rightarrow> [] | Some ts \<Rightarrow> ts) @ new"
proof (induction calls arbitrary: c)
  case Nil
  then show ?case by simp
next
  case (Cons call calls)
  obtain c1 new1 where s: "step call c = Inr c1" "name c1 = name c" "schema c1 = schema c"
      "length (the_fields c1) = length (the_fields c) + (if is_Declare call then 1 else 0)"
      "(case translations (meta c1) of None \<Rightarrow> [] | Some ts \<Rightarrow> ts) =
         (case translations (meta c) of None \<Rightarrow> [] | Some ts \<Rightarrow> ts) @ new1"
    using step_total by blast
  obtain c2 new2 where r: "run calls c1 = Inr c2" "name c2 = name c1" "schema c2 = schema c1"
      "length (the_fields c2) = length (the_fields c1) + length (filter is_Declare calls)"
      "(case translations (meta c2) of None \<Rightarrow> [] | Some ts \<Rightarrow> ts) =
         (case translations (meta c1) of None \<Rightarrow> [] | Some ts \<Rightarrow> ts) @ new2"
    using Cons.IH by blast
  have "run (call # calls) c = Inr c2" using s(1) r(1) by simp
  moreover have "(case translations (meta c2) of None \<Rightarrow> [] | Some ts \<Rightarrow> ts) =
         (case translations (meta c) of None \<Rightarrow> [] | Some ts \<Rightarrow> ts) @ (new1 @ new2)"
    using s(5) r(5) by simp
  ultimately show ?case using s r by auto
qed

text \<open>
  C7. \<open>translation(language, translation, singular?, plural?)\<close> returns without an
  error and appends one entry with the given language and translation, and with
  the singular and plural given or else undefined, to \<open>meta.translations\<close>, which it
  first sets to the empty sequence when it is unset. A sequence of such calls appends
  their entries in the order of the calls. No sequence of calls of any methods of the
  collection removes or reorders entries: the entries before the calls are a prefix
  of the entries after them.
\<close>

theorem translation_appends:
  "Collection_translation l t sg pl c =
     Inr (c\<lparr>meta := (meta c)\<lparr>translations :=
        Some ((case translations (meta c) of None \<Rightarrow> [] | Some ts \<Rightarrow> ts) @
              [\<lparr>tr_language = l, tr_translation = t, tr_singular = sg, tr_plural = pl\<rparr>])\<rparr>\<rparr>)
   \<and> run (map (\<lambda>(l, t, sg, pl). Translate l t sg pl) args) c =
     Inr (c\<lparr>meta := (meta c)\<lparr>translations :=
        (if args = [] then translations (meta c)
         else Some ((case translations (meta c) of None \<Rightarrow> [] | Some ts \<Rightarrow> ts) @
                    map (\<lambda>(l, t, sg, pl).
                          \<lparr>tr_language = l, tr_translation = t,
                           tr_singular = sg, tr_plural = pl\<rparr>) args))\<rparr>\<rparr>)
   \<and> (\<exists>c' new. run calls c = Inr c'
        \<and> (case translations (meta c') of None \<Rightarrow> [] | Some ts \<Rightarrow> ts) =
            (case translations (meta c) of None \<Rightarrow> [] | Some ts \<Rightarrow> ts) @ new)"
proof -
  have "\<exists>c' new. run calls c = Inr c'
        \<and> (case translations (meta c') of None \<Rightarrow> [] | Some ts \<Rightarrow> ts) =
            (case translations (meta c) of None \<Rightarrow> [] | Some ts \<Rightarrow> ts) @ new"
    using run_total [of calls c] by blast
  then show ?thesis
    using Collection_translation_Inr run_translations by blast
qed

text \<open>\<open>translation("en", "English")\<close> called twice on a new collection.\<close>

theorem translation_appends_witness:
  "translations (meta articles) = None
   \<and> run [Translate ''en'' ''English'' None None, Translate ''en'' ''English'' None None]
       articles =
     Inr (articles\<lparr>meta := (meta articles)\<lparr>translations :=
        Some [\<lparr>tr_language = ''en'', tr_translation = ''English'',
                tr_singular = None, tr_plural = None\<rparr>,
              \<lparr>tr_language = ''en'', tr_translation = ''English'',
                tr_singular = None, tr_plural = None\<rparr>]\<rparr>\<rparr>)"
proof -
  have unset: "translations (meta articles) = None"
    by (simp add: examples)
  note appended = translation_appends
    [of "''en''" "''English''" None None articles
        "[(''en'', ''English'', None, None), (''en'', ''English'', None, None)]" "[]",
     THEN conjunct2, THEN conjunct1]
  from appended unset show ?thesis
    by (simp del: run.simps)
qed

subsection \<open>render\<close>

lemma map_render_unchanged:
  "\<forall>h \<in> set hs. h < length (the_fields c) \<Longrightarrow>
     map_render hs c = (map (\<lambda>h. Field_render (the_fields c ! h)) hs, c)"
  by (induction hs) (simp_all add: Field_render_call_def)

text \<open>The call returns the value \<open>Collection_render\<close> gives and leaves the state as it was.\<close>

lemma Collection_render_call_eq: "Collection_render_call c = (Collection_render c, c)"
proof -
  have "map (\<lambda>h. Field_render (the_fields c ! h)) [0..<length (the_fields c)] =
        map Field_render (map (\<lambda>h. the_fields c ! h) [0..<length (the_fields c)])"
    by simp
  also have "\<dots> = map Field_render (the_fields c)"
    by (simp add: map_nth)
  finally show ?thesis
    by (simp add: Collection_render_call_def Collection_render_def map_render_unchanged)
qed

text \<open>
  C8. For every state of a collection, a call of \<open>render()\<close> returns
  \<open>{collection: name, schema, meta, fields}\<close>, where \<open>fields\<close> holds the rendering
  \<open>{field, type, schema, meta}\<close> of each field in the order of \<open>this.fields\<close>, and it
  leaves the state as it found it (neither \<open>render\<close> nor the \<open>field.render()\<close> calls it
  makes write anything). So of two calls with nothing in between the second starts
  from the state the first started from, and the two outputs are equal.
\<close>

theorem render_pure:
  "Collection_render_call c =
     (\<lparr>out_collection = name c, out_schema = schema c, out_meta = meta c,
       out_fields = map (\<lambda>f. \<lparr>o_field = f_name f, o_type = f_type f,
                               o_schema = f_schema f, o_meta = f_meta f\<rparr>) (the_fields c)\<rparr>,
      c)
   \<and> (case Collection_render_call c of
        (first, c1) \<Rightarrow>
          (case Collection_render_call c1 of
             (second, c2) \<Rightarrow> second = first \<and> c1 = c \<and> c2 = c))"
  by (simp add: Collection_render_call_eq Collection_render_def Field_render_def)

text \<open>
  Two calls on a collection with one field and a schema of one property: both return
  the same output, which shows the schema and the field, and the collection is as
  before.
\<close>

theorem render_pure_witness:
  "(case Collection_render_call (legacy\<lparr>schema := [(''comment'', JString ''old'')]\<rparr>) of
      (first, c1) \<Rightarrow>
        (case Collection_render_call c1 of
           (second, c2) \<Rightarrow>
             second = first \<and> c2 = legacy\<lparr>schema := [(''comment'', JString ''old'')]\<rparr>
             \<and> first =
               \<lparr>out_collection = ''legacy'', out_schema = [(''comment'', JString ''old'')],
                out_meta = \<lparr>sort_field = None, archive_field = None, archive_value = None,
                  unarchive_value = None, archive_app_filter = None, accountability = None,
                  hidden = None, singleton = None, translations = None\<rparr>,
                out_fields =
                  [\<lparr>o_field = ''id'', o_type = ''integer'',
                    o_schema = \<lparr>max_length = None, numeric_precision = None,
                                numeric_scale = None, nullable = None, primary_key = None,
                                autoincrement = None\<rparr>,
                    o_meta = \<lparr>interface = None, options = None, display = None,
                              display_options = None, special = None\<rparr>\<rparr>]\<rparr>))"
proof -
  note inst = render_pure [of "legacy\<lparr>schema := [(''comment'', JString ''old'')]\<rparr>"]
  note shape = inst [THEN conjunct1] and twice = inst [THEN conjunct2]
  from shape twice show ?thesis
    by (simp add: examples new_Field_def empty_FieldSchema_def empty_FieldMeta_def)
qed

subsection \<open>No errors, no validation\<close>






subsection \<open>The constructor's defaults\<close>

text \<open>
  C10. A collection constructed with a builder and a name only has the empty
  schema, the empty meta (every property unset) and no fields, and \<open>render()\<close> on it
  returns \<open>{collection: name, schema: {}, meta: {}, fields: []}\<close>.
\<close>

theorem fresh_collection_render:
  "new_Collection b nm None None None =
     \<lparr>builder = b, name = nm, schema = [],
      meta = \<lparr>sort_field = None, archive_field = None, archive_value = None,
        unarchive_value = None, archive_app_filter = None, accountability = None,
        hidden = None, singleton = None, translations = None\<rparr>,
      the_fields = []\<rparr>
   \<and> Collection_render (new_Collection b nm None None None) =
     \<lparr>out_collection = nm, out_schema = [],
      out_meta = \<lparr>sort_field = None, archive_field = None, archive_value = None,
        unarchive_value = None, archive_app_filter = None, accountability = None,
        hidden = None, singleton = None, translations = None\<rparr>,
      out_fields = []\<rparr>"
  by (simp add: new_Collection_def Collection_render_def empty_CollectionMeta_def)

theorem fresh_collection_render_witness:
  "Collection_render articles =
     \<lparr>out_collection = ''articles'', out_schema = [],
      out_meta = \<lparr>sort_field = None, archive_field = None, archive_value = None,
        unarchive_value = None, archive_app_filter = None, accountability = None,
        hidden = None, singleton = None, translations = None\<rparr>,
      out_fields = []\<rparr>"
  unfolding articles_def
  using fresh_collection_render [of example_builder "''articles''"]
  by (rule conjunct2)

end
